theory Spec2Isabelle
  imports Complex_Main "HOL-Library.AList"
begin

section \<open>Module constants of goldeneye.py\<close>

definition METHOD_GET :: string where
  "METHOD_GET = ''get''"

definition METHOD_POST :: string where
  "METHOD_POST = ''post''"

definition METHOD_RAND :: string where
  "METHOD_RAND = ''random''"

definition DEFAULT_WORKERS :: int where
  "DEFAULT_WORKERS = 50"

definition DEFAULT_SOCKETS :: int where
  "DEFAULT_SOCKETS = 350"

definition DEFAULT_RATE_LIMIT :: int where
  "DEFAULT_RATE_LIMIT = 10000"

definition SSL_VERIFY :: bool where
  "SSL_VERIFY = True"

definition USER_AGENTS :: "string list" where
  "USER_AGENTS =
    [''Mozilla/5.0 (Windows NT 10.0; Win64; x64) AppleWebKit/537.36 (KHTML, like Gecko) Chrome/134.0.0.0 Safari/537.36'',
     ''Mozilla/5.0 (Macintosh; Intel Mac OS X 10_15_7) AppleWebKit/605.1.15 (KHTML, like Gecko) Version/17.10 Safari/605.1.15'',
     ''Mozilla/5.0 (X11; Linux x86_64) AppleWebKit/537.36 (KHTML, like Gecko) Chrome/134.0.0.0 Safari/537.36'',
     ''Mozilla/5.0 (iPhone; CPU iPhone OS 18_3_2 like Mac OS X) AppleWebKit/605.1.15 (KHTML, like Gecko) CriOS/134.0.6998.99 Mobile/15E148 Safari/604.1'']"

section \<open>Python values, exceptions and library primitives\<close>

text \<open>
  The exceptions that matter to the engine, with the part of Python's class hierarchy
  that its \<^verbatim>\<open>except\<close> clauses look at: \<^verbatim>\<open>httpx.HTTPError\<close> (timeouts, refused
  connections, TLS and protocol errors) and every other subclass of \<^verbatim>\<open>Exception\<close> are
  caught by \<^verbatim>\<open>strike\<close>; \<^verbatim>\<open>asyncio.CancelledError\<close> and \<^verbatim>\<open>KeyboardInterrupt\<close> derive from
  \<^verbatim>\<open>BaseException\<close> only and pass through both handlers.
\<close>

datatype exn =
    HTTPError
  | ValueError
  | IndexError
  | AttributeError
  | ZeroDivisionError
  | OverflowError
  | OtherException
  | CancelledError
  | KeyboardInterrupt

fun is_HTTPError :: "exn \<Rightarrow> bool" where
  "is_HTTPError HTTPError = True"
| "is_HTTPError _ = False"

fun is_Exception :: "exn \<Rightarrow> bool" where
  "is_Exception CancelledError = False"
| "is_Exception KeyboardInterrupt = False"
| "is_Exception _ = True"

text \<open>Sequencing of computations that may raise: the first exception raised wins.\<close>

definition bnd :: "exn + 'a \<Rightarrow> ('a \<Rightarrow> exn + 'b) \<Rightarrow> exn + 'b" where
  "bnd m f = (case m of Inl e \<Rightarrow> Inl e | Inr x \<Rightarrow> f x)"

text \<open>
  \<^verbatim>\<open>random.randint(a, b)\<close> and \<^verbatim>\<open>random.choice(xs)\<close>. The last argument is the draw of
  the random source, an input of the model; the functions reduce it to the range the
  library guarantees. An empty range and an empty sequence raise, as in Python.
\<close>

definition randint :: "int \<Rightarrow> int \<Rightarrow> nat \<Rightarrow> exn + int" where
  "randint a b r = (if b < a then Inl ValueError else Inr (a + int r mod (b - a + 1)))"

definition choice :: "'a list \<Rightarrow> nat \<Rightarrow> exn + 'a" where
  "choice xs r = (if xs = [] then Inl IndexError else Inr (xs ! (r mod length xs)))"

text \<open>
  \<^verbatim>\<open>str.upper()\<close> on the ASCII letters. The method names the engine compares with are
  ASCII; Unicode case mapping of other characters is outside this model.
\<close>

definition upper_char :: "char \<Rightarrow> char" where
  "upper_char c =
     (case map_of (zip ''abcdefghijklmnopqrstuvwxyz'' ''ABCDEFGHIJKLMNOPQRSTUVWXYZ'') c of
        Some u \<Rightarrow> u
      | None \<Rightarrow> c)"

definition upper :: "string \<Rightarrow> string" where
  "upper m = map upper_char m"

text \<open>Decimal rendering of an integer inside an f-string.\<close>

definition digit_char :: "nat \<Rightarrow> char" where
  "digit_char d = ''0123456789'' ! (d mod 10)"

fun str_nat :: "nat \<Rightarrow> string" where
  "str_nat n = (if n < 10 then [digit_char n] else str_nat (n div 10) @ [digit_char (n mod 10)])"

definition str_int :: "int \<Rightarrow> string" where
  "str_int i = (if i < 0 then CHR ''-'' # str_nat (nat (- i)) else str_nat (nat i))"

text \<open>\<^verbatim>\<open>int(x)\<close> on a float truncates towards zero. Floats are modelled as reals.\<close>

definition py_int :: "real \<Rightarrow> int" where
  "py_int x = (if 0 \<le> x then \<lfloor>x\<rfloor> else \<lceil>x\<rceil>)"

text \<open>
  The conversion of an integer to a float, which float arithmetic applies to an integer
  operand. It rounds to the nearest double, ties to even; the largest double is
  \<open>2 ^ 1024 - 2 ^ 971\<close>, so an integer of magnitude \<open>2 ^ 1024 - 2 ^ 970\<close> or more has no
  double and the conversion raises \<^verbatim>\<open>OverflowError\<close>. Below that bound the float is
  modelled by the real number itself: rounding is not modelled.
\<close>

definition float_overflow_bound :: int where
  "float_overflow_bound = 2 ^ 1024 - 2 ^ 970"

definition int_to_float :: "int \<Rightarrow> exn + real" where
  "int_to_float n =
     (if float_overflow_bound \<le> \<bar>n\<bar> then Inl OverflowError else Inr (real_of_int n))"

text \<open>
  \<^verbatim>\<open>x / n\<close> for a float \<^verbatim>\<open>x\<close> and an integer \<^verbatim>\<open>n\<close>: the integer is converted first, then
  division by zero raises.
\<close>

definition py_truediv :: "real \<Rightarrow> int \<Rightarrow> exn + real" where
  "py_truediv x n =
     bnd (int_to_float n) (\<lambda>d. if d = 0 then Inl ZeroDivisionError else Inr (x / d))"

datatype pyval = PyStr string | PyInt int

type_synonym headers = "(string \<times> string) list"

type_synonym body = "(string \<times> pyval) list"

section \<open>The engine object\<close>

text \<open>The result of \<^verbatim>\<open>urllib.parse.urlparse\<close>, a library function taken as an input.\<close>

record parse_result =
  scheme :: string
  netloc :: string
  urlpath :: string

text \<open>The \<^verbatim>\<open>httpx.AsyncClient\<close> as \<^verbatim>\<open>__aenter__\<close> configures it.\<close>

record client =
  client_base_url :: string
  verify :: bool
  timeout :: real
  max_keepalive_connections :: int
  max_connections :: int
  http2 :: bool
  closed :: bool

text \<open>
  The attributes of class \<^verbatim>\<open>Alpha\<close>. The two-element list \<^verbatim>\<open>counter\<close>
  (\<^verbatim>\<open>[Erfolge, Fehler]\<close>) is a pair: the source only reads and writes its indices 0 and 1
  and never changes its length. The attribute \<^verbatim>\<open>method\<close> is the field \<open>method_mode\<close>.
\<close>

record alpha =
  url :: string
  workers :: int
  sockets :: int
  method_mode :: string
  rate_limit :: int
  dry_run :: bool
  duration :: "int option"
  user_agents :: "string list"
  counter :: "int \<times> int"
  latencies :: "real list"
  start_time :: real
  running :: bool
  parsed_url :: parse_result
  base_url :: string
  path :: string
  session :: "client option"

definition alpha_init ::
  "string \<Rightarrow> parse_result \<Rightarrow> int \<Rightarrow> int \<Rightarrow> string \<Rightarrow> int \<Rightarrow> int option \<Rightarrow> bool \<Rightarrow> alpha" where
  "alpha_init u parsed w sk m rl dur dry =
     \<lparr> url = u, workers = w, sockets = sk, method_mode = m, rate_limit = max 1 rl,
       dry_run = dry, duration = dur, user_agents = USER_AGENTS,
       counter = (0, 0), latencies = [], start_time = 0, running = True,
       parsed_url = parsed,
       base_url = scheme parsed @ ''://'' @ netloc parsed,
       path = (if urlpath parsed = [] then ''/'' else urlpath parsed),
       session = None \<rparr>"

text \<open>\<^verbatim>\<open>__aenter__\<close>; \<open>now\<close> is the value of \<^verbatim>\<open>time.time()\<close>.\<close>

definition aenter :: "real \<Rightarrow> alpha \<Rightarrow> alpha" where
  "aenter now s =
     (let s1 = s\<lparr>start_time := now\<rparr> in
      if \<not> dry_run s1 then
        s1\<lparr>session := Some \<lparr> client_base_url = base_url s1, verify = SSL_VERIFY, timeout = 15,
                               max_keepalive_connections = sockets s1 * 2,
                               max_connections = workers s1 * sockets s1 * 2,
                               http2 = True, closed = False \<rparr>\<rparr>
      else s1)"

section \<open>Statistics\<close>

record stats =
  st_success :: int
  st_failed :: int
  st_total_requests :: int
  st_rate :: real
  st_avg_latency :: real
  st_max_latency :: real
  st_elapsed :: real

text \<open>
  The metrics that \<^verbatim>\<open>get_stats_table\<close> computes before it renders them. The method
  returns the table and assigns to no attribute, so the state comes back as it was.
\<close>

definition get_stats_table :: "real \<Rightarrow> alpha \<Rightarrow> stats \<times> alpha" where
  "get_stats_table now s =
     (let (success, failed) = counter s;
          elapsed = now - start_time s;
          total_requests = success + failed;
          rate = (if elapsed > 0 then real_of_int total_requests / elapsed else 0);
          avg_latency = (if latencies s \<noteq> []
                         then sum_list (latencies s) / real (length (latencies s)) else 0);
          max_latency = (if latencies s \<noteq> [] then Max (set (latencies s)) else 0)
      in (\<lparr> st_success = success, st_failed = failed, st_total_requests = total_requests,
            st_rate = rate, st_avg_latency = avg_latency, st_max_latency = max_latency,
            st_elapsed = elapsed \<rparr>, s))"

text \<open>
  \<^verbatim>\<open>print_stats\<close>: with the rich console it prints the table above, otherwise the
  fallback lines, which repeat the computation without the maximum.
\<close>

datatype printed =
    RichTable stats
  | Fallback int int int real real

definition print_stats :: "bool \<Rightarrow> real \<Rightarrow> alpha \<Rightarrow> printed \<times> alpha" where
  "print_stats rich now s =
     (if rich then (case get_stats_table now s of (t, s') \<Rightarrow> (RichTable t, s'))
      else
        (let (success, failed) = counter s;
             total_requests = success + failed;
             elapsed_time = now - start_time s;
             rps = (if elapsed_time > 0 then real_of_int total_requests / elapsed_time else 0);
             avg_lat = (if latencies s \<noteq> []
                        then sum_list (latencies s) / real (length (latencies s)) else 0)
         in (Fallback total_requests success failed rps avg_lat, s)))"

text \<open>\<^verbatim>\<open>__aexit__\<close>: stop, close the client if there is one, print the statistics.\<close>

definition aexit :: "bool \<Rightarrow> real \<Rightarrow> alpha \<Rightarrow> printed \<times> alpha" where
  "aexit rich now s =
     (let s1 = s\<lparr>running := False\<rparr>;
          s2 = (case session s1 of
                  Some c \<Rightarrow> s1\<lparr>session := Some (c\<lparr>closed := True\<rparr>)\<rparr>
                | None \<Rightarrow> s1)
      in print_stats rich now s2)"

section \<open>Request generation\<close>

text \<open>
  The inputs that \<^verbatim>\<open>generate_request\<close> takes from outside: one draw of the random
  source for each call of \<^verbatim>\<open>random\<close> it can make, in the order of the source, and the
  clock read by \<^verbatim>\<open>time.time()\<close>.
\<close>

record gen_env =
  g_cache :: nat
  g_agent :: nat
  g_referer :: nat
  g_method :: nat
  g_key :: nat
  g_worker :: nat
  g_time :: real

text \<open>
  The expression
  \<^verbatim>\<open>random.choice([METHOD_GET, METHOD_POST]) if self.method == METHOD_RAND else self.method\<close>,
  which stands in \<^verbatim>\<open>generate_request\<close> and again in \<^verbatim>\<open>strike\<close>.
\<close>

definition resolve_method :: "alpha \<Rightarrow> nat \<Rightarrow> exn + string" where
  "resolve_method s r =
     (if method_mode s = METHOD_RAND then choice [METHOD_GET, METHOD_POST] r else Inr (method_mode s))"

definition generate_request :: "alpha \<Rightarrow> gen_env \<Rightarrow> exn + (string \<times> headers \<times> body option)" where
  "generate_request s g =
     bnd (randint 100000 999999 (g_cache g)) (\<lambda>q.
     bnd (choice (user_agents s) (g_agent g)) (\<lambda>ua.
     bnd (randint 1000 9999 (g_referer g)) (\<lambda>rq.
     bnd (resolve_method s (g_method g)) (\<lambda>m.
       let url_path = path s @ ''?q='' @ str_int q;
           hdrs = [(''User-Agent'', ua),
                   (''Connection'', ''keep-alive''),
                   (''Referer'', base_url s @ ''/search?q='' @ str_int rq),
                   (''Accept-Encoding'', ''gzip, deflate, br'')]
       in if upper m = ''POST'' then
            bnd (randint 1 1000 (g_key g)) (\<lambda>k.
            bnd (randint 1 (workers s) (g_worker g)) (\<lambda>w.
              Inr (url_path,
                   AList.update ''Content-Type'' ''application/json'' hdrs,
                   Some [(''key'', PyStr (''data_'' @ str_int k)),
                         (''timestamp'', PyInt (py_int (g_time g))),
                         (''worker_id'', PyInt w)])))
          else Inr (url_path, hdrs, None)))))"

section \<open>A single request\<close>

text \<open>
  What the HTTP client answers when \<^verbatim>\<open>strike\<close> awaits it: a response with its status
  code, or an exception raised out of the call.
\<close>

datatype net_reply = Response int | Raise exn

record strike_env =
  s_method :: nat
  t_begin :: real
  t_end :: real
  reply :: net_reply

text \<open>A request handed to the client: \<^verbatim>\<open>session.get\<close> or \<^verbatim>\<open>session.post\<close>.\<close>

datatype net_call =
    SessionGet string headers
  | SessionPost string headers "body option"

definition count_success :: "alpha \<Rightarrow> alpha" where
  "count_success s = s\<lparr>counter := (fst (counter s) + 1, snd (counter s))\<rparr>"

definition count_failure :: "alpha \<Rightarrow> alpha" where
  "count_failure s = s\<lparr>counter := (fst (counter s), snd (counter s) + 1)\<rparr>"

text \<open>
  The part of \<^verbatim>\<open>strike\<close> after the client has been called: the outcome of the await,
  the latency sample, the classification and the two \<^verbatim>\<open>except\<close> clauses. An exception that
  is neither an \<^verbatim>\<open>HTTPError\<close> nor an \<^verbatim>\<open>Exception\<close> leaves \<^verbatim>\<open>strike\<close> with the state
  untouched.
\<close>

definition settle :: "alpha \<Rightarrow> strike_env \<Rightarrow> net_call \<Rightarrow> (exn + bool) \<times> alpha \<times> net_call list" where
  "settle s e c =
     (case reply e of
        Response status_code \<Rightarrow>
          (let latency = (t_end e - t_begin e) * 1000;
               s1 = s\<lparr>latencies := latencies s @ [latency]\<rparr>
           in if 200 \<le> status_code \<and> status_code < 400
              then (Inr True, count_success s1, [c])
              else (Inr False, count_failure s1, [c]))
      | Raise x \<Rightarrow>
          (if is_HTTPError x then (Inr False, count_failure s, [c])
           else if is_Exception x then (Inr False, count_failure s, [c])
           else (Inl x, s, [c])))"

text \<open>
  \<^verbatim>\<open>strike\<close> returns its result (or the exception that leaves it), the engine after the
  call and the requests it handed to the client. Without a client (\<^verbatim>\<open>self.session\<close> is
  \<^verbatim>\<open>None\<close>) the attribute lookup raises \<^verbatim>\<open>AttributeError\<close> inside the \<^verbatim>\<open>try\<close>, which the
  second handler catches.
\<close>

definition strike ::
  "alpha \<Rightarrow> string \<Rightarrow> headers \<Rightarrow> body option \<Rightarrow> strike_env \<Rightarrow> (exn + bool) \<times> alpha \<times> net_call list" where
  "strike s url_path hdrs bdy e =
     (if dry_run s then (Inr True, count_success s, [])
      else
        (case resolve_method s (s_method e) of
           Inl x \<Rightarrow> (Inl x, s, [])
         | Inr m \<Rightarrow>
             if upper m = ''GET'' then
               (case session s of
                  None \<Rightarrow> (Inr False, count_failure s, [])
                | Some _ \<Rightarrow> settle s e (SessionGet url_path hdrs))
             else if upper m = ''POST'' then
               (case session s of
                  None \<Rightarrow> (Inr False, count_failure s, [])
                | Some _ \<Rightarrow> settle s e (SessionPost url_path hdrs bdy))
             else (Inr False, count_failure s, [])))"

section \<open>Worker and run\<close>

text \<open>The pacing delay that \<^verbatim>\<open>worker\<close> computes before its loop.\<close>

definition delay_per_request :: "alpha \<Rightarrow> exn + real" where
  "delay_per_request s = py_truediv 1 (rate_limit s)"

text \<open>
  One pass of the inner loop of \<^verbatim>\<open>worker\<close> together with the task it creates: a
  descriptor is generated and handed to \<^verbatim>\<open>strike\<close>.
\<close>

definition worker_attempt ::
  "alpha \<Rightarrow> gen_env \<Rightarrow> strike_env \<Rightarrow> (exn + bool) \<times> alpha \<times> net_call list" where
  "worker_attempt s g e =
     (case generate_request s g of
        Inl x \<Rightarrow> (Inl x, s, [])
      | Inr (url_path, hdrs, bdy) \<Rightarrow> strike s url_path hdrs bdy e)"

text \<open>
  \<^verbatim>\<open>run\<close>. The concurrent phase (the worker tasks under \<^verbatim>\<open>asyncio.wait\<close> or
  \<^verbatim>\<open>asyncio.gather\<close>) is the parameter \<open>pool\<close>: whatever the tasks did to the engine until
  the wait ended, the requests they handed to the client, and the exception that ended
  the wait, if any. A dry run returns before the pool is built. \<^verbatim>\<open>CancelledError\<close> and
  \<^verbatim>\<open>KeyboardInterrupt\<close> are absorbed; the \<^verbatim>\<open>finally\<close> clause always clears \<^verbatim>\<open>running\<close>.
\<close>

definition run ::
  "(alpha \<Rightarrow> exn option \<times> alpha \<times> net_call list) \<Rightarrow> alpha \<Rightarrow> exn option \<times> alpha \<times> net_call list" where
  "run pool s =
     (if dry_run s then (None, s, [])
      else
        (case pool s of
           (x, s', calls) \<Rightarrow>
             ((case x of
                 None \<Rightarrow> None
               | Some CancelledError \<Rightarrow> None
               | Some KeyboardInterrupt \<Rightarrow> None
               | Some other \<Rightarrow> Some other),
              s'\<lparr>running := False\<rparr>, calls)))"

text \<open>The command line arguments after parsing.\<close>

record args =
  a_url :: string
  a_workers :: int
  a_sockets :: int
  a_method :: string
  a_rate_limit :: int
  a_duration :: "int option"
  a_dry_run :: bool

text \<open>
  \<^verbatim>\<open>run_wrapper\<close> after argument parsing: the engine is built, entered, run and left.
  \<open>t0\<close> and \<open>t1\<close> are the clock at entry and at exit, \<open>rich\<close> is \<^verbatim>\<open>RICH_AVAILABLE\<close>.
\<close>

definition run_wrapper ::
  "args \<Rightarrow> parse_result \<Rightarrow> bool \<Rightarrow> real \<Rightarrow> real \<Rightarrow> (alpha \<Rightarrow> exn option \<times> alpha \<times> net_call list)
     \<Rightarrow> exn option \<times> printed \<times> alpha \<times> net_call list" where
  "run_wrapper a parsed rich t0 t1 pool =
     (let engine = aenter t0 (alpha_init (a_url a) parsed (a_workers a) (a_sockets a) (a_method a)
                                (a_rate_limit a) (a_duration a) (a_dry_run a))
      in case run pool engine of
           (x, s1, calls) \<Rightarrow>
             (case aexit rich t1 s1 of (out, s2) \<Rightarrow> (x, out, s2, calls)))"

section \<open>Traces of operations on the engine\<close>







section \<open>Concrete engines and environments\<close>

text \<open>Inputs on which the theorems below are exercised.\<close>

definition local_target :: parse_result where
  "local_target = \<lparr> scheme = ''http'', netloc = ''localhost:8080'', urlpath = ''/api/submit'' \<rparr>"

definition engine_for :: "string \<Rightarrow> int \<Rightarrow> bool \<Rightarrow> alpha" where
  "engine_for m rl dry =
     aenter 1700000000 (alpha_init ''http://localhost:8080/api/submit'' local_target 2 3 m rl None dry)"

definition draws :: "nat \<Rightarrow> gen_env" where
  "draws r = \<lparr> g_cache = 23456, g_agent = 2, g_referer = 234, g_method = r, g_key = 41,
               g_worker = 5, g_time = 1700000000.75 \<rparr>"

definition answer :: "nat \<Rightarrow> net_reply \<Rightarrow> strike_env" where
  "answer r a = \<lparr> s_method = r, t_begin = 10, t_end = 10.25, reply = a \<rparr>"

text \<open>A pool in which one worker completes one attempt before the wait ends.\<close>

definition one_attempt_pool :: "alpha \<Rightarrow> exn option \<times> alpha \<times> net_call list" where
  "one_attempt_pool s =
     (case worker_attempt s (draws 0) (answer 0 (Response 200)) of
        (Inl x, s', calls) \<Rightarrow> (Some x, s', calls)
      | (Inr _, s', calls) \<Rightarrow> (None, s', calls))"

definition dry_args :: args where
  "dry_args = \<lparr> a_url = ''http://localhost:8080/api/submit'', a_workers = 1, a_sockets = 1,
                 a_method = METHOD_POST, a_rate_limit = 1, a_duration = None, a_dry_run = True \<rparr>"

definition fresh_engine :: alpha where
  "fresh_engine =
     alpha_init ''http://localhost:8080/api/submit'' local_target 2 3 METHOD_POST 10 None False"



definition busy_engine :: alpha where
  "busy_engine = (engine_for METHOD_POST 10 False)\<lparr>counter := (3, 1), latencies := [120, 250, 80]\<rparr>"

section \<open>Auxiliary lemmas\<close>

lemma upper_get: "upper METHOD_GET = ''GET''"
  by (simp add: upper_def upper_char_def METHOD_GET_def)

lemma upper_post: "upper METHOD_POST = ''POST''"
  by (simp add: upper_def upper_char_def METHOD_POST_def)

lemma resolve_method_total: "\<exists>m. resolve_method s r = Inr m"
  by (simp add: resolve_method_def choice_def)







lemma user_agents_length: "length USER_AGENTS = 4" "USER_AGENTS \<noteq> []"
  by (simp_all add: USER_AGENTS_def)


lemma strike_interrupt_leaves:
  "\<not> dry_run s \<Longrightarrow> session s = Some c \<Longrightarrow> resolve_method s (s_method e) = Inr m \<Longrightarrow>
   upper m = ''GET'' \<or> upper m = ''POST'' \<Longrightarrow> reply e = Raise x \<Longrightarrow> \<not> is_Exception x \<Longrightarrow>
     strike s p h b e =
       (Inl x, s, [if upper m = ''GET'' then SessionGet p h else SessionPost p h b])"
  by (cases x) (auto simp add: strike_def settle_def)




lemma float_overflow_bound_pos: "1 < float_overflow_bound"
  by (simp add: float_overflow_bound_def)

lemma default_rate_limit_in_range: "DEFAULT_RATE_LIMIT < float_overflow_bound"
  by (simp add: float_overflow_bound_def DEFAULT_RATE_LIMIT_def)

lemmas engine_eval = engine_for_def aenter_def alpha_init_def answer_def draws_def
  resolve_method_def choice_def METHOD_GET_def METHOD_POST_def METHOD_RAND_def
  upper_def upper_char_def Let_def count_success_def count_failure_def
  strike_def settle_def local_target_def

section \<open>Counters\<close>




section \<open>Classification of responses\<close>

text \<open>
  Claim C2. A \<^verbatim>\<open>strike\<close> call outside dry-run mode that receives an HTTP response (the
  resolved method is GET or POST, there is a client, and the client answers with a status
  code) returns \<^verbatim>\<open>True\<close> and adds one to the success counter if and only if
  200 \<le> status < 400; for any other status it returns \<^verbatim>\<open>False\<close> and adds one to the
  failure counter.
\<close>

theorem strike_classifies_by_status:
  assumes "\<not> dry_run s"
    and "resolve_method s (s_method e) = Inr m"
    and "upper m = ''GET'' \<or> upper m = ''POST''"
    and "session s = Some c"
    and "reply e = Response status_code"
  shows "fst (strike s url_path hdrs bdy e) = Inr (200 \<le> status_code \<and> status_code < 400)
    \<and> counter (fst (snd (strike s url_path hdrs bdy e))) =
        (if 200 \<le> status_code \<and> status_code < 400
         then (fst (counter s) + 1, snd (counter s))
         else (fst (counter s), snd (counter s) + 1))"
  using assms
  by (auto simp add: strike_def settle_def count_success_def count_failure_def Let_def)

theorem strike_classifies_by_status_witness:
  "fst (strike (engine_for METHOD_POST 10 False) ''/x'' [] None (answer 0 (Response 399))) = Inr True
   \<and> counter (fst (snd (strike (engine_for METHOD_POST 10 False) ''/x'' [] None (answer 0 (Response 399))))) = (1, 0)
   \<and> fst (strike (engine_for METHOD_RAND 10 False) ''/x'' [] None (answer 0 (Response 400))) = Inr False
   \<and> counter (fst (snd (strike (engine_for METHOD_RAND 10 False) ''/x'' [] None (answer 0 (Response 400))))) = (0, 1)"
proof -
  have p: "\<not> dry_run (engine_for METHOD_POST 10 False)"
    "resolve_method (engine_for METHOD_POST 10 False) (s_method (answer 0 (Response 399))) = Inr METHOD_POST"
    "upper METHOD_POST = ''GET'' \<or> upper METHOD_POST = ''POST''"
    "session (engine_for METHOD_POST 10 False) = Some \<lparr> client_base_url = ''http://localhost:8080'', verify = SSL_VERIFY, timeout = 15,
                               max_keepalive_connections = 6, max_connections = 12,
                               http2 = True, closed = False \<rparr>"
    "reply (answer 0 (Response 399)) = Response 399"
    by (simp_all add: engine_eval)
  have q: "\<not> dry_run (engine_for METHOD_RAND 10 False)"
    "resolve_method (engine_for METHOD_RAND 10 False) (s_method (answer 0 (Response 400))) = Inr METHOD_GET"
    "upper METHOD_GET = ''GET'' \<or> upper METHOD_GET = ''POST''"
    "session (engine_for METHOD_RAND 10 False) = Some \<lparr> client_base_url = ''http://localhost:8080'', verify = SSL_VERIFY, timeout = 15,
                               max_keepalive_connections = 6, max_connections = 12,
                               http2 = True, closed = False \<rparr>"
    "reply (answer 0 (Response 400)) = Response 400"
    by (simp_all add: engine_eval)
  from strike_classifies_by_status [OF p, of "''/x''" "[]" None]
    strike_classifies_by_status [OF q, of "''/x''" "[]" None]
  show ?thesis
    by (simp add: engine_for_def aenter_def alpha_init_def)
qed

section \<open>Faults\<close>

text \<open>
  Claim C3. When the call of the client raises a transport fault (an \<^verbatim>\<open>httpx.HTTPError\<close>
  such as a timeout, a refused connection, a TLS or protocol error, or any other
  \<^verbatim>\<open>Exception\<close>), \<^verbatim>\<open>strike\<close> catches it: it returns \<^verbatim>\<open>False\<close>, nothing leaves the call, the
  failure counter grows by one, and the client was called once, so nothing is retried.
\<close>

theorem strike_absorbs_faults:
  assumes "\<not> dry_run s"
    and "resolve_method s (s_method e) = Inr m"
    and "upper m = ''GET'' \<or> upper m = ''POST''"
    and "session s = Some c"
    and "reply e = Raise x"
    and "is_HTTPError x \<or> is_Exception x"
  shows "strike s url_path hdrs bdy e =
           (Inr False, count_failure s,
            [if upper m = ''GET'' then SessionGet url_path hdrs else SessionPost url_path hdrs bdy])
         \<and> counter (count_failure s) = (fst (counter s), snd (counter s) + 1)"
  using assms
  by (auto simp add: strike_def settle_def count_failure_def)

theorem strike_absorbs_faults_witness:
  "strike (engine_for METHOD_POST 10 False) ''/x'' [] None (answer 0 (Raise HTTPError)) =
     (Inr False, count_failure (engine_for METHOD_POST 10 False), [SessionPost ''/x'' [] None])
   \<and> counter (count_failure (engine_for METHOD_POST 10 False)) = (0, 1)"
proof -
  let ?eng = "engine_for METHOD_POST 10 False"
  have p: "\<not> dry_run ?eng"
    "resolve_method ?eng (s_method (answer 0 (Raise HTTPError))) = Inr METHOD_POST"
    "upper METHOD_POST = ''GET'' \<or> upper METHOD_POST = ''POST''"
    "session ?eng = Some \<lparr> client_base_url = ''http://localhost:8080'', verify = SSL_VERIFY,
                           timeout = 15, max_keepalive_connections = 6, max_connections = 12,
                           http2 = True, closed = False \<rparr>"
    "reply (answer 0 (Raise HTTPError)) = Raise HTTPError"
    "is_HTTPError HTTPError \<or> is_Exception HTTPError"
    by (simp_all add: engine_eval)
  have z: "counter ?eng = (0, 0)"
    by (simp add: engine_for_def aenter_def alpha_init_def)
  from strike_absorbs_faults [OF p, of "''/x''" "[]" None]
  show ?thesis
    by (simp add: z upper_post)
qed

text \<open>
  Claim C9. Outside dry-run mode, when the resolved method is neither GET nor POST,
  \<^verbatim>\<open>strike\<close> returns \<^verbatim>\<open>False\<close> and adds one to the failure counter; the client is not called
  and no latency sample is recorded.
\<close>

theorem strike_unsupported_method:
  assumes "\<not> dry_run s"
    and "resolve_method s (s_method e) = Inr m"
    and "upper m \<noteq> ''GET''"
    and "upper m \<noteq> ''POST''"
  shows "strike s url_path hdrs bdy e = (Inr False, count_failure s, [])
         \<and> counter (count_failure s) = (fst (counter s), snd (counter s) + 1)
         \<and> latencies (count_failure s) = latencies s"
  using assms
  by (simp add: strike_def count_failure_def)

theorem strike_unsupported_method_witness:
  "strike (engine_for ''put'' 10 False) ''/x'' [] None (answer 0 (Response 200)) =
     (Inr False, count_failure (engine_for ''put'' 10 False), [])
   \<and> counter (count_failure (engine_for ''put'' 10 False)) = (0, 1)
   \<and> latencies (count_failure (engine_for ''put'' 10 False)) = []"
proof -
  let ?eng = "engine_for ''put'' 10 False"
  have p: "\<not> dry_run ?eng"
    "resolve_method ?eng (s_method (answer 0 (Response 200))) = Inr ''put''"
    "upper ''put'' \<noteq> ''GET''"
    "upper ''put'' \<noteq> ''POST''"
    by (simp_all add: engine_eval)
  have z: "counter ?eng = (0, 0)" "latencies ?eng = []"
    by (simp_all add: engine_for_def aenter_def alpha_init_def)
  from strike_unsupported_method [OF p, of "''/x''" "[]" None]
  show ?thesis
    by (simp add: z)
qed

section \<open>Latency samples\<close>

text \<open>
  Claim C6, as the specification states it, asks that every completed \<^verbatim>\<open>strike\<close> call outside
  dry-run mode appends one latency sample, whatever its classification. A call whose
  request ends in a caught fault completes, counts a failure and appends nothing.
\<close>

theorem fault_records_no_latency:
  "fst (strike (engine_for METHOD_GET 10 False) ''/x'' [] None (answer 0 (Raise HTTPError))) = Inr False
   \<and> latencies (fst (snd (strike (engine_for METHOD_GET 10 False) ''/x'' [] None (answer 0 (Raise HTTPError)))))
       = latencies (engine_for METHOD_GET 10 False)
   \<and> length (latencies (fst (snd (strike (engine_for METHOD_GET 10 False) ''/x'' [] None (answer 0 (Raise HTTPError))))))
       \<noteq> length (latencies (engine_for METHOD_GET 10 False)) + 1"
  by (simp add: engine_eval)

text \<open>
  Claim C6, amended. Outside dry-run mode, a \<^verbatim>\<open>strike\<close> call that receives an HTTP response
  appends exactly one latency sample, \<open>(t_end - t_begin) * 1000\<close> milliseconds, at the end
  of the shared sequence, whether the status is a success or a failure; a call that ends in
  a caught fault, or that never calls the client, leaves the sequence as it was. The
  sequence is only ever extended at its end.
\<close>

theorem strike_latency_samples:
  assumes "\<not> dry_run s"
    and "strike s url_path hdrs bdy e = (Inr r, s', calls)"
  shows "(calls \<noteq> [] \<and> (\<exists>status_code. reply e = Response status_code) \<longrightarrow>
            latencies s' = latencies s @ [(t_end e - t_begin e) * 1000])
       \<and> (calls = [] \<or> (\<exists>x. reply e = Raise x) \<longrightarrow> latencies s' = latencies s)"
  using assms
  by (auto simp add: strike_def settle_def count_success_def count_failure_def Let_def
      split: if_splits sum.splits option.splits net_reply.splits)

theorem strike_latency_samples_witness:
  "latencies (fst (snd (strike (engine_for METHOD_GET 10 False) ''/x'' [] None (answer 0 (Response 200))))) = [250]
   \<and> latencies (fst (snd (strike (engine_for METHOD_GET 10 False) ''/x'' [] None (answer 0 (Response 500))))) = [250]
   \<and> latencies (fst (snd (strike (engine_for METHOD_GET 10 False) ''/x'' [] None (answer 0 (Raise OtherException))))) = []"
proof -
  let ?eng = "engine_for METHOD_GET 10 False"
  let ?a = "strike ?eng ''/x'' [] None (answer 0 (Response 200))"
  let ?b = "strike ?eng ''/x'' [] None (answer 0 (Response 500))"
  let ?c = "strike ?eng ''/x'' [] None (answer 0 (Raise OtherException))"
  have d: "\<not> dry_run ?eng" and l: "latencies ?eng = []"
    by (simp_all add: engine_for_def aenter_def alpha_init_def)
  have a: "?a = (Inr True, fst (snd ?a), [SessionGet ''/x'' []])"
    and b: "?b = (Inr False, fst (snd ?b), [SessionGet ''/x'' []])"
    and c: "?c = (Inr False, fst (snd ?c), [SessionGet ''/x'' []])"
    by (simp_all add: engine_eval)
  from strike_latency_samples [OF d a] have "latencies (fst (snd ?a)) = [250]"
    by (simp add: l answer_def)
  moreover from strike_latency_samples [OF d b] have "latencies (fst (snd ?b)) = [250]"
    by (simp add: l answer_def)
  moreover from strike_latency_samples [OF d c] have "latencies (fst (snd ?c)) = []"
    by (simp add: l answer_def)
  ultimately show ?thesis by blast
qed

section \<open>The statistics snapshot\<close>

text \<open>
  Claim C7. The snapshot has total = success + failure; rate = total / elapsed, and 0 when
  elapsed \<le> 0; the average latency is the arithmetic mean of the samples and the maximum
  latency is their maximum (one of the samples, and no sample exceeds it), both 0 when
  there is no sample. Computing the snapshot, through \<^verbatim>\<open>get_stats_table\<close> or through
  \<^verbatim>\<open>print_stats\<close> with either output, returns the engine unchanged.
\<close>

theorem stats_snapshot:
  "st_total_requests (fst (get_stats_table now s)) = fst (counter s) + snd (counter s)
   \<and> st_elapsed (fst (get_stats_table now s)) = now - start_time s
   \<and> (now - start_time s \<le> 0 \<longrightarrow> st_rate (fst (get_stats_table now s)) = 0)
   \<and> (now - start_time s > 0 \<longrightarrow>
        st_rate (fst (get_stats_table now s)) =
          real_of_int (fst (counter s) + snd (counter s)) / (now - start_time s))
   \<and> (latencies s = [] \<longrightarrow>
        st_avg_latency (fst (get_stats_table now s)) = 0
        \<and> st_max_latency (fst (get_stats_table now s)) = 0)
   \<and> (latencies s \<noteq> [] \<longrightarrow>
        st_avg_latency (fst (get_stats_table now s)) =
          sum_list (latencies s) / real (length (latencies s))
        \<and> st_max_latency (fst (get_stats_table now s)) = Max (set (latencies s))
        \<and> st_max_latency (fst (get_stats_table now s)) \<in> set (latencies s)
        \<and> (\<forall>x \<in> set (latencies s). x \<le> st_max_latency (fst (get_stats_table now s))))
   \<and> snd (get_stats_table now s) = s
   \<and> snd (print_stats rich now s) = s
   \<and> print_stats True now s = (RichTable (fst (get_stats_table now s)), s)
   \<and> print_stats False now s =
        (Fallback (fst (counter s) + snd (counter s)) (fst (counter s)) (snd (counter s))
           (st_rate (fst (get_stats_table now s))) (st_avg_latency (fst (get_stats_table now s))), s)"
proof -
  have m: "latencies s \<noteq> [] \<Longrightarrow> Max (set (latencies s)) \<in> set (latencies s)"
    by (rule Max_in) simp_all
  show ?thesis
    using m
    by (simp add: get_stats_table_def print_stats_def Let_def split: prod.splits)
qed

theorem stats_snapshot_witness:
  "st_total_requests (fst (get_stats_table 1700000002 busy_engine)) = 4
   \<and> st_rate (fst (get_stats_table 1700000002 busy_engine)) = 2
   \<and> st_avg_latency (fst (get_stats_table 1700000002 busy_engine)) = 150
   \<and> st_max_latency (fst (get_stats_table 1700000002 busy_engine)) = 250
   \<and> snd (get_stats_table 1700000002 busy_engine) = busy_engine
   \<and> st_rate (fst (get_stats_table 0 fresh_engine)) = 0
   \<and> st_avg_latency (fst (get_stats_table 0 fresh_engine)) = 0
   \<and> st_max_latency (fst (get_stats_table 0 fresh_engine)) = 0"
proof -
  have b: "counter busy_engine = (3, 1)" "latencies busy_engine = [120, 250, 80]"
    "start_time busy_engine = 1700000000"
    by (simp_all add: busy_engine_def engine_for_def aenter_def alpha_init_def)
  have f: "latencies fresh_engine = []" "start_time fresh_engine = 0"
    by (simp_all add: fresh_engine_def alpha_init_def)
  from stats_snapshot [of 1700000002 busy_engine True] stats_snapshot [of 0 fresh_engine True]
  show ?thesis
    by (simp add: b f)
qed

section \<open>Generated descriptors\<close>



section \<open>Method resolution in random mode\<close>

text \<open>
  Claim C4 asks that in random mode the method dispatched by \<^verbatim>\<open>strike\<close> is the one resolved
  when the descriptor was generated. The source evaluates the resolving expression twice,
  once in \<^verbatim>\<open>generate_request\<close> and once more in \<^verbatim>\<open>strike\<close>, with independent draws. With the
  draws below, a descriptor built for POST (JSON body, \<^verbatim>\<open>Content-Type\<close> header) is sent
  through \<^verbatim>\<open>session.get\<close>, which takes no body, and a descriptor built for GET (no body) is
  sent through \<^verbatim>\<open>session.post\<close> with \<^verbatim>\<open>json=None\<close>.
\<close>

theorem random_mode_redraws_method:
  "generate_request (engine_for METHOD_RAND 10 False) (draws 1) =
     Inr (''/api/submit?q=123456'',
          [(''User-Agent'', USER_AGENTS ! 2),
           (''Connection'', ''keep-alive''),
           (''Referer'', ''http://localhost:8080/search?q=1234''),
           (''Accept-Encoding'', ''gzip, deflate, br''),
           (''Content-Type'', ''application/json'')],
          Some [(''key'', PyStr ''data_42''), (''timestamp'', PyInt 1700000000), (''worker_id'', PyInt 2)])
   \<and> snd (snd (worker_attempt (engine_for METHOD_RAND 10 False) (draws 1) (answer 0 (Response 200)))) =
       [SessionGet ''/api/submit?q=123456''
          [(''User-Agent'', USER_AGENTS ! 2),
           (''Connection'', ''keep-alive''),
           (''Referer'', ''http://localhost:8080/search?q=1234''),
           (''Accept-Encoding'', ''gzip, deflate, br''),
           (''Content-Type'', ''application/json'')]]
   \<and> generate_request (engine_for METHOD_RAND 10 False) (draws 0) =
     Inr (''/api/submit?q=123456'',
          [(''User-Agent'', USER_AGENTS ! 2),
           (''Connection'', ''keep-alive''),
           (''Referer'', ''http://localhost:8080/search?q=1234''),
           (''Accept-Encoding'', ''gzip, deflate, br'')],
          None)
   \<and> snd (snd (worker_attempt (engine_for METHOD_RAND 10 False) (draws 0) (answer 1 (Response 200)))) =
       [SessionPost ''/api/submit?q=123456''
          [(''User-Agent'', USER_AGENTS ! 2),
           (''Connection'', ''keep-alive''),
           (''Referer'', ''http://localhost:8080/search?q=1234''),
           (''Accept-Encoding'', ''gzip, deflate, br'')]
          None]"
proof -
  have a: "generate_request (engine_for METHOD_RAND 10 False) (draws 1) =
     Inr (''/api/submit?q=123456'',
          [(''User-Agent'', USER_AGENTS ! 2),
           (''Connection'', ''keep-alive''),
           (''Referer'', ''http://localhost:8080/search?q=1234''),
           (''Accept-Encoding'', ''gzip, deflate, br''),
           (''Content-Type'', ''application/json'')],
          Some [(''key'', PyStr ''data_42''), (''timestamp'', PyInt 1700000000), (''worker_id'', PyInt 2)])"
    by (simp add: generate_request_def bnd_def randint_def str_int_def digit_char_def py_int_def
        engine_eval user_agents_length)
  have b: "generate_request (engine_for METHOD_RAND 10 False) (draws 0) =
     Inr (''/api/submit?q=123456'',
          [(''User-Agent'', USER_AGENTS ! 2),
           (''Connection'', ''keep-alive''),
           (''Referer'', ''http://localhost:8080/search?q=1234''),
           (''Accept-Encoding'', ''gzip, deflate, br'')],
          None)"
    by (simp add: generate_request_def bnd_def randint_def str_int_def digit_char_def py_int_def
        engine_eval user_agents_length)
  have c: "snd (snd (strike (engine_for METHOD_RAND 10 False) p h bd (answer 0 (Response 200))))
            = [SessionGet p h]" for p h bd
    by (simp add: engine_eval)
  have d: "snd (snd (strike (engine_for METHOD_RAND 10 False) p h bd (answer 1 (Response 200))))
            = [SessionPost p h bd]" for p h bd
    by (simp add: engine_eval)
  show ?thesis
    unfolding worker_attempt_def a b
    by (simp add: c d del: One_nat_def)
qed

section \<open>Dry runs\<close>

text \<open>
  Claim C5, as the specification states it, expects success = 1 after a dry run with
  workers = 1, sockets = 1 and rate_limit = 1. \<^verbatim>\<open>run\<close> returns before any worker exists, so
  \<^verbatim>\<open>strike\<close> is never called and both counters stay at 0, also with a pool that would
  complete an attempt.
\<close>

theorem dry_run_success_is_not_one:
  "counter (fst (snd (snd (run_wrapper dry_args local_target False 1700000000 1700000001 one_attempt_pool))))
     = (0, 0)
   \<and> fst (counter (fst (snd (snd (run_wrapper dry_args local_target False 1700000000 1700000001
                                      one_attempt_pool))))) \<noteq> 1"
  by (simp add: run_wrapper_def run_def aexit_def print_stats_def aenter_def alpha_init_def
      dry_args_def Let_def)

text \<open>
  Claim C5, amended. For workers = 1, sockets = 1, rate_limit = 1 and dry_run = true, after
  the run the success counter is 0 and the failure counter is 0, no request has been handed
  to a client (none was created), no latency was recorded and no exception leaves \<^verbatim>\<open>run\<close>.
\<close>

theorem dry_run_counts_nothing:
  assumes "a_workers a = 1" and "a_sockets a = 1" and "a_rate_limit a = 1" and "a_dry_run a"
  shows "fst (run_wrapper a parsed rich t0 t1 pool) = None
    \<and> counter (fst (snd (snd (run_wrapper a parsed rich t0 t1 pool)))) = (0, 0)
    \<and> latencies (fst (snd (snd (run_wrapper a parsed rich t0 t1 pool)))) = []
    \<and> session (fst (snd (snd (run_wrapper a parsed rich t0 t1 pool)))) = None
    \<and> snd (snd (snd (run_wrapper a parsed rich t0 t1 pool))) = []"
  using assms
  by (simp add: run_wrapper_def run_def aexit_def print_stats_def get_stats_table_def aenter_def
      alpha_init_def Let_def split: prod.splits)

theorem dry_run_counts_nothing_witness:
  "fst (run_wrapper dry_args local_target False 1700000000 1700000001 one_attempt_pool) = None
    \<and> counter (fst (snd (snd (run_wrapper dry_args local_target False 1700000000 1700000001 one_attempt_pool)))) = (0, 0)
    \<and> snd (snd (snd (run_wrapper dry_args local_target False 1700000000 1700000001 one_attempt_pool))) = []"
proof -
  have p: "a_workers dry_args = 1" "a_sockets dry_args = 1" "a_rate_limit dry_args = 1"
    "a_dry_run dry_args"
    by (simp_all add: dry_args_def)
  from dry_run_counts_nothing [OF p, of local_target False 1700000000 1700000001 one_attempt_pool]
  show ?thesis by simp
qed

text \<open>Outside dry-run mode the same pool counts its one attempt.\<close>

lemma pool_counts_outside_dry_run:
  "counter (fst (snd (snd (run_wrapper (dry_args\<lparr>a_dry_run := False\<rparr>) local_target False
                            1700000000 1700000001 one_attempt_pool)))) = (1, 0)"
  by (simp add: run_wrapper_def run_def aexit_def print_stats_def dry_args_def
      one_attempt_pool_def worker_attempt_def generate_request_def bnd_def randint_def
      str_int_def digit_char_def py_int_def engine_eval user_agents_length)

section \<open>The rate limit\<close>

text \<open>
  Claim C10, as the specification states it, has the pacing delay \<^verbatim>\<open>1.0 / self.rate_limit\<close>
  well defined for every \<^verbatim>\<open>rate_limit\<close> the constructor receives. The clamp keeps a large
  value as it is, and an integer beyond the range of floats makes the division raise
  \<^verbatim>\<open>OverflowError\<close>.
\<close>

theorem pacing_delay_overflows:
  "rate_limit (engine_for METHOD_POST (2 ^ 1024) False) = 2 ^ 1024
   \<and> delay_per_request (engine_for METHOD_POST (2 ^ 1024) False) = Inl OverflowError"
  by (simp add: engine_for_def aenter_def alpha_init_def delay_per_request_def py_truediv_def
      int_to_float_def float_overflow_bound_def bnd_def)

text \<open>
  Claim C10, amended. Whatever \<^verbatim>\<open>rate_limit\<close> the constructor receives, zero and negative
  values included, the engine stores \<open>max 1 rate_limit\<close>, so the pacing delay of the worker
  never divides by zero; for every \<^verbatim>\<open>rate_limit\<close> below \<open>2 ^ 1024 - 2 ^ 970\<close>, the integers
  that have a float, the delay is defined, positive and at most one second, and from that
  bound on the division raises \<^verbatim>\<open>OverflowError\<close>.
\<close>

theorem pacing_delay_defined:
  "rate_limit (alpha_init u parsed w sk m rl dur dry) = max 1 rl
   \<and> rate_limit (aenter now (alpha_init u parsed w sk m rl dur dry)) = max 1 rl
   \<and> delay_per_request (aenter now (alpha_init u parsed w sk m rl dur dry)) \<noteq> Inl ZeroDivisionError
   \<and> (rl < float_overflow_bound \<longrightarrow>
        delay_per_request (aenter now (alpha_init u parsed w sk m rl dur dry))
          = Inr (1 / real_of_int (max 1 rl))
        \<and> 0 < 1 / real_of_int (max 1 rl)
        \<and> 1 / real_of_int (max 1 rl) \<le> 1)
   \<and> (float_overflow_bound \<le> rl \<longrightarrow>
        delay_per_request (aenter now (alpha_init u parsed w sk m rl dur dry)) = Inl OverflowError)"
proof -
  let ?eng = "aenter now (alpha_init u parsed w sk m rl dur dry)"
  have r: "rate_limit ?eng = max 1 rl"
    by (simp add: aenter_def alpha_init_def Let_def)
  have i: "rate_limit (alpha_init u parsed w sk m rl dur dry) = max 1 rl"
    by (simp add: alpha_init_def)
  have a: "\<bar>max 1 rl\<bar> = max 1 rl"
    by simp
  have z: "real_of_int (max 1 rl) \<noteq> 0"
    by simp
  have q: "0 < 1 / real_of_int (max 1 rl)" "1 / real_of_int (max 1 rl) \<le> 1"
    by (simp_all add: divide_le_eq)
  have small: "delay_per_request ?eng = Inr (1 / real_of_int (max 1 rl))"
    if "rl < float_overflow_bound"
  proof -
    from that float_overflow_bound_pos have "\<not> float_overflow_bound \<le> \<bar>max 1 rl\<bar>"
      unfolding a by simp
    then show ?thesis
      unfolding delay_per_request_def py_truediv_def int_to_float_def bnd_def r
      using z by simp
  qed
  have big: "delay_per_request ?eng = Inl OverflowError" if "float_overflow_bound \<le> rl"
  proof -
    from that have "float_overflow_bound \<le> \<bar>max 1 rl\<bar>"
      unfolding a by simp
    then show ?thesis
      unfolding delay_per_request_def py_truediv_def int_to_float_def bnd_def r
      by simp
  qed
  have nz: "delay_per_request ?eng \<noteq> Inl ZeroDivisionError"
  proof (cases "rl < float_overflow_bound")
    case True
    with small show ?thesis by simp
  next
    case False
    with big show ?thesis by simp
  qed
  from i r nz small big q show ?thesis
    by blast
qed

theorem pacing_delay_defined_witness:
  "rate_limit (engine_for METHOD_POST 0 False) = 1
   \<and> delay_per_request (engine_for METHOD_POST 0 False) = Inr 1
   \<and> rate_limit (engine_for METHOD_POST (- 5) False) = 1
   \<and> delay_per_request (engine_for METHOD_POST (- 5) False) = Inr 1
   \<and> delay_per_request (engine_for METHOD_POST 4 False) = Inr (1 / 4)
   \<and> delay_per_request (engine_for METHOD_POST float_overflow_bound False) = Inl OverflowError"
proof -
  have s: "(0::int) < float_overflow_bound" "(- 5::int) < float_overflow_bound"
    "(4::int) < float_overflow_bound" "float_overflow_bound \<le> float_overflow_bound"
    using default_rate_limit_in_range by (simp_all add: DEFAULT_RATE_LIMIT_def)
  from s
    pacing_delay_defined [of "''http://localhost:8080/api/submit''" local_target 2 3 METHOD_POST 0 None False 1700000000]
    pacing_delay_defined [of "''http://localhost:8080/api/submit''" local_target 2 3 METHOD_POST "- 5" None False 1700000000]
    pacing_delay_defined [of "''http://localhost:8080/api/submit''" local_target 2 3 METHOD_POST 4 None False 1700000000]
    pacing_delay_defined [of "''http://localhost:8080/api/submit''" local_target 2 3 METHOD_POST float_overflow_bound None False 1700000000]
  show ?thesis
    by (simp add: engine_for_def)
qed

end
